theory Spec2Isabelle
  imports Complex_Main
begin

section \<open>Fourier ring iterators of miplib\<close>

text \<open>
  The development embeds \<^verbatim>\<open>miplib/data/iterators/fourier_ring_iterators.py\<close>: the class
  \<^verbatim>\<open>FourierRingIterator\<close> and its subclass \<^verbatim>\<open>SectionedFourierRingIterator\<close>.

  Numbers. The shape and the ring thickness are Python integers (\<open>int\<close>). The grid
  coordinates are floats holding whole numbers, so the grids are kept as \<open>int\<close> arrays and
  the sum of squares is exact. The radius field (\<^verbatim>\<open>np.sqrt\<close>), the angle field
  (\<^verbatim>\<open>np.arctan2\<close>, \<^verbatim>\<open>np.pi\<close>) and every angle are \<open>real\<close>: the float operations are read
  as the real functions they approximate.

  Arrays. A 2D numpy array is the list of its rows. The module is Python 2 (tuple
  parameters, \<^verbatim>\<open>next\<close>), so \<^verbatim>\<open>/\<close> on two integers is floor division, which is \<open>div\<close> on
  \<open>int\<close>.
\<close>

subsection \<open>Exceptions\<close>

datatype error = AssertionError | ZeroDivisionError | StopIteration

subsection \<open>The numpy operations the module uses\<close>

text \<open>\<^verbatim>\<open>np.arange(start, stop)\<close> on whole numbers: \<open>start, start + 1, ...\<close> below \<open>stop\<close>.\<close>

definition np_arange :: "int \<Rightarrow> int \<Rightarrow> int list" where
  "np_arange start stop = [start..stop - 1]"

text \<open>\<^verbatim>\<open>np.arange(start, stop, step)\<close> on integers, \<open>step \<noteq> 0\<close>: its length is
  \<open>max 0 (ceiling ((stop - start) / step))\<close> and its \<open>i\<close>-th element \<open>start + i * step\<close>.\<close>

definition np_arange_step :: "int \<Rightarrow> int \<Rightarrow> int \<Rightarrow> int list" where
  "np_arange_step start stop step =
     map (\<lambda>i. start + int i * step) [0..<nat (- ((- (stop - start)) div step))]"

text \<open>\<^verbatim>\<open>np.meshgrid(a, b)\<close> with its default \<^verbatim>\<open>indexing='xy'\<close>: both results have
  \<open>length b\<close> rows and \<open>length a\<close> columns; the first repeats \<open>a\<close> in every row, the second
  holds \<open>b ! i\<close> all along row \<open>i\<close>.\<close>

definition np_meshgrid :: "'a list \<Rightarrow> 'a list \<Rightarrow> 'a list list \<times> 'a list list" where
  "np_meshgrid a b = (map (\<lambda>_. a) b, map (\<lambda>v. map (\<lambda>_. v) a) b)"

text \<open>Elementwise operations on 2D arrays of one shape.\<close>

definition arr_map :: "('a \<Rightarrow> 'b) \<Rightarrow> 'a list list \<Rightarrow> 'b list list" where
  "arr_map f a = map (map f) a"

definition arr_map2 :: "('a \<Rightarrow> 'b \<Rightarrow> 'c) \<Rightarrow> 'a list list \<Rightarrow> 'b list list \<Rightarrow> 'c list list" where
  "arr_map2 f a b = map2 (map2 f) a b"

text \<open>On boolean arrays \<^verbatim>\<open>*\<close> is the elementwise conjunction and \<^verbatim>\<open>+\<close> the
  elementwise disjunction.\<close>

definition arr_mul :: "bool list list \<Rightarrow> bool list list \<Rightarrow> bool list list" where
  "arr_mul a b = arr_map2 (\<and>) a b"

definition arr_add :: "bool list list \<Rightarrow> bool list list \<Rightarrow> bool list list" where
  "arr_add a b = arr_map2 (\<or>) a b"

text \<open>\<^verbatim>\<open>np.where(mask)\<close> on a 2D boolean array returns the row indices and the column
  indices of the true cells, in row-major order, as two parallel arrays; the model keeps
  them zipped, as the list of \<open>(row, column)\<close> pairs.\<close>

definition np_where :: "bool list list \<Rightarrow> (nat \<times> nat) list" where
  "np_where m = [(i, j). i \<leftarrow> [0..<length m], j \<leftarrow> [0..<length (m ! i)], m ! i ! j]"

text \<open>\<^verbatim>\<open>np.arctan2(y, x)\<close>: the angle of the point \<open>(x, y)\<close>, in \<open>(- pi, pi]\<close>, and \<open>0\<close> at
  the origin.\<close>

definition np_arctan2 :: "real \<Rightarrow> real \<Rightarrow> real" where
  "np_arctan2 y x =
     (if 0 < x then arctan (y / x)
      else if x < 0 \<and> 0 \<le> y then arctan (y / x) + pi
      else if x < 0 then arctan (y / x) - pi
      else if 0 < y then pi / 2
      else if y < 0 then - (pi / 2)
      else 0)"

subsection \<open>The converter the module imports\<close>

text \<open>Modelled from the spec: \<^verbatim>\<open>converters.degrees_to_radians\<close> of
  \<^verbatim>\<open>miplib.processing.converters\<close>, a module that is not among the sources. The spec
  says that the angle step, given in degrees, is converted to radians.\<close>

definition degrees_to_radians :: "real \<Rightarrow> real" where
  "degrees_to_radians angle = angle * pi / 180"

subsection \<open>FourierRingIterator\<close>

text \<open>The attributes \<^verbatim>\<open>_nbins\<close> and \<^verbatim>\<open>_radii\<close> are the fields \<open>priv_nbins\<close> and
  \<open>priv_radii\<close>; \<open>meshgrid\<close> is the pair \<^verbatim>\<open>(y, x)\<close>.\<close>

record FourierRingIterator =
  d_bin :: int
  ring_start :: int
  priv_nbins :: int
  meshgrid :: "int list list \<times> int list list"
  r :: "real list list"
  current_ring :: int
  freq_nyq :: int
  priv_radii :: "int list"

text \<open>One element of the generator \<^verbatim>\<open>axes\<close>:
  \<^verbatim>\<open>np.arange(-np.floor(i / 2.0), np.ceil(i / 2.0))\<close>, with \<open>floor (i / 2) = i div 2\<close> and
  \<open>ceiling (i / 2) = - (- i div 2)\<close>.\<close>

definition axis :: "int \<Rightarrow> int list" where
  "axis i = np_arange (- (i div 2)) (- ((- i) div 2))"

text \<open>\<^verbatim>\<open>__init__(self, shape, d_bin)\<close>. The assertion on the length of the shape comes
  first; the division that computes \<^verbatim>\<open>_nbins\<close> raises when \<^verbatim>\<open>2 * d_bin\<close> is zero.\<close>

definition FourierRingIterator_init :: "int list \<Rightarrow> int \<Rightarrow> error + FourierRingIterator" where
  "FourierRingIterator_init shape d =
     (if length shape \<noteq> 2 then Inl AssertionError
      else if 2 * d = 0 then Inl ZeroDivisionError
      else
        let nb = (shape ! 0) div (2 * d);
            axes = map axis shape;
            (y, x) = np_meshgrid (axes ! 0) (axes ! 1);
            nyq = (shape ! 0) div 2
        in Inr \<lparr> d_bin = d, ring_start = 0, priv_nbins = nb, meshgrid = (y, x),
                 r = arr_map2 (\<lambda>xv yv. sqrt (of_int (xv\<^sup>2 + yv\<^sup>2))) x y,
                 current_ring = 0, freq_nyq = nyq,
                 priv_radii = np_arange_step 0 nyq d \<rparr>)"

text \<open>The properties \<^verbatim>\<open>radii\<close> and \<^verbatim>\<open>nbins\<close>.\<close>

definition radii :: "'a FourierRingIterator_scheme \<Rightarrow> int list" where
  "radii self = priv_radii self"

definition nbins :: "'a FourierRingIterator_scheme \<Rightarrow> int" where
  "nbins self = priv_nbins self"

text \<open>\<^verbatim>\<open>get_points_on_ring(self, ring_start, ring_stop)\<close>.\<close>

definition get_points_on_ring ::
  "'a FourierRingIterator_scheme \<Rightarrow> real \<Rightarrow> real \<Rightarrow> bool list list" where
  "get_points_on_ring self rstart rstop =
     (let arr_inf = arr_map (\<lambda>v. v \<ge> rstart) (r self);
          arr_sup = arr_map (\<lambda>v. v < rstop) (r self)
      in arr_mul arr_inf arr_sup)"

text \<open>\<^verbatim>\<open>next(self)\<close>. The result is the value returned or the exception raised,
  together with the object after the call; raising \<^verbatim>\<open>StopIteration\<close> comes before any
  assignment.\<close>

definition FourierRingIterator_next ::
  "'a FourierRingIterator_scheme \<Rightarrow>
     (error + (nat \<times> nat) list \<times> int) \<times> 'a FourierRingIterator_scheme" where
  "FourierRingIterator_next self =
     (if current_ring self < priv_nbins self then
        let ring = get_points_on_ring self (of_int (current_ring self * d_bin self))
                     (of_int ((current_ring self + 1) * d_bin self));
            self' = self\<lparr>current_ring := current_ring self + 1\<rparr>
        in (Inr (np_where ring, current_ring self' - 1), self')
      else (Inl StopIteration, self))"

subsection \<open>SectionedFourierRingIterator\<close>

text \<open>The subclass adds the angle step in radians, the angle field, the attribute
  \<^verbatim>\<open>_angle\<close> (the field \<open>priv_angle\<close>) and the cached sector mask.\<close>

record SectionedFourierRingIterator = FourierRingIterator +
  d_angle :: real
  phi :: "real list list"
  priv_angle :: real
  angle_sector :: "bool list list"

text \<open>\<^verbatim>\<open>get_angle_sector(self, phi_min, phi_max)\<close>.\<close>

definition get_angle_sector ::
  "'a SectionedFourierRingIterator_scheme \<Rightarrow> real \<Rightarrow> real \<Rightarrow> bool list list" where
  "get_angle_sector self phi_min phi_max =
     (let arr_inf = arr_map (\<lambda>v. v \<ge> phi_min) (phi self);
          arr_sup = arr_map (\<lambda>v. v < phi_max) (phi self);
          arr_inf_neg = arr_map (\<lambda>v. v \<ge> phi_min + pi) (phi self);
          arr_sup_neg = arr_map (\<lambda>v. v < phi_max + pi) (phi self)
      in arr_add (arr_mul arr_inf arr_sup) (arr_mul arr_inf_neg arr_sup_neg))"

text \<open>\<^verbatim>\<open>__init__(self, shape, d_bin, d_angle)\<close>: the base constructor runs first, and
  its exceptions pass through. The sector mask is assigned last, from the object as it
  is then (before that assignment the attribute does not exist; the record holds an
  empty array there, which \<open>get_angle_sector\<close> does not read).\<close>

definition SectionedFourierRingIterator_init ::
  "int list \<Rightarrow> int \<Rightarrow> real \<Rightarrow> error + SectionedFourierRingIterator" where
  "SectionedFourierRingIterator_init shape d dangle =
     (case FourierRingIterator_init shape d of
        Inl e \<Rightarrow> Inl e
      | Inr base \<Rightarrow>
          let da = degrees_to_radians dangle;
              (y, x) = meshgrid base;
              phi0 = arr_map (\<lambda>v. v + pi)
                       (arr_map2 (\<lambda>yv xv. np_arctan2 (of_int yv) (of_int xv)) y x);
              phi1 = arr_map (\<lambda>v. v + da / 2) phi0;
              phi2 = arr_map (\<lambda>v. if v \<ge> 2 * pi then v - 2 * pi else v) phi1;
              self = \<lparr> d_bin = d_bin base, ring_start = ring_start base,
                       priv_nbins = priv_nbins base, meshgrid = meshgrid base, r = r base,
                       current_ring = current_ring base, freq_nyq = freq_nyq base,
                       priv_radii = priv_radii base,
                       d_angle = da, phi = phi2, priv_angle = 0, angle_sector = [] \<rparr>
          in Inr (self\<lparr>angle_sector := get_angle_sector self 0 (of_int d)\<rparr>))"

text \<open>The property \<^verbatim>\<open>angle\<close>: its getter and its setter.\<close>

definition angle :: "'a SectionedFourierRingIterator_scheme \<Rightarrow> real" where
  "angle self = priv_angle self"

definition angle_setter ::
  "'a SectionedFourierRingIterator_scheme \<Rightarrow> real \<Rightarrow> 'a SectionedFourierRingIterator_scheme" where
  "angle_setter self v =
     (let a = degrees_to_radians v;
          self1 = self\<lparr>priv_angle := a\<rparr>
      in self1\<lparr>angle_sector := get_angle_sector self1 a (a + d_angle self1)\<rparr>)"

text \<open>\<^verbatim>\<open>__getitem__(self, (ring_start, ring_stop, angle_min, angle_max))\<close>. The method
  assigns to nothing; the model returns the object beside the result, so that what the
  call leaves behind can be stated.\<close>

definition getitem ::
  "'a SectionedFourierRingIterator_scheme \<Rightarrow> real \<times> real \<times> real \<times> real \<Rightarrow>
     (nat \<times> nat) list \<times> 'a SectionedFourierRingIterator_scheme" where
  "getitem self key =
     (case key of (rstart, rstop, angle_min, angle_max) \<Rightarrow>
        let ring = get_points_on_ring self rstart rstop;
            cone = get_angle_sector self angle_min angle_max
        in (np_where (arr_mul ring cone), self))"

text \<open>\<^verbatim>\<open>next(self)\<close> of the subclass.\<close>

definition SectionedFourierRingIterator_next ::
  "'a SectionedFourierRingIterator_scheme \<Rightarrow>
     (error + (nat \<times> nat) list \<times> int) \<times> 'a SectionedFourierRingIterator_scheme" where
  "SectionedFourierRingIterator_next self =
     (if current_ring self < priv_nbins self then
        let ring = get_points_on_ring self (of_int (current_ring self * d_bin self))
                     (of_int ((current_ring self + 1) * d_bin self));
            self' = self\<lparr>current_ring := current_ring self + 1\<rparr>
        in (Inr (np_where (arr_mul ring (angle_sector self')), current_ring self' - 1), self')
      else (Inl StopIteration, self))"

section \<open>Properties\<close>

subsection \<open>The grid and the radius field of a constructed iterator\<close>

lemma length_np_arange: "length (np_arange a b) = nat (b - a)"
  by (simp add: np_arange_def)

lemma nth_np_arange: "k < nat (b - a) \<Longrightarrow> np_arange a b ! k = a + int k"
  by (simp add: np_arange_def)

lemma axis_extent: "- ((- n) div 2) - (- (n div 2)) = (n::int)"
  by presburger

lemma length_axis: "length (axis n) = nat n"
  by (simp add: axis_def length_np_arange axis_extent)

lemma nth_axis: "k < nat n \<Longrightarrow> axis n ! k = int k - n div 2"
  using nth_np_arange [of k "- ((- n) div 2)" "- (n div 2)"] 
  by (simp add: axis_def axis_extent)

lemma set_np_where:
  "set (np_where m) = {(i, j). i < length m \<and> j < length (m ! i) \<and> m ! i ! j}"
  by (auto simp: np_where_def)

lemma init_Inr_D:
  "FourierRingIterator_init shape d = Inr it \<Longrightarrow> length shape = 2 \<and> d \<noteq> 0"
  by (auto simp: FourierRingIterator_init_def split: if_splits)

lemma init_ok:
  assumes "length shape = 2" "d \<noteq> 0"
  shows "\<exists>it. FourierRingIterator_init shape d = Inr it"
  using assms by (simp add: FourierRingIterator_init_def Let_def split: prod.splits)

lemma init_scalars:
  assumes "FourierRingIterator_init shape d = Inr it"
  shows "d_bin it = d" and "ring_start it = 0" and "priv_nbins it = (shape ! 0) div (2 * d)"
    and "current_ring it = 0" and "freq_nyq it = (shape ! 0) div 2"
    and "priv_radii it = np_arange_step 0 ((shape ! 0) div 2) d"
  using assms
  by (auto simp: FourierRingIterator_init_def Let_def split: if_splits prod.splits)

lemma init_meshgrid:
  assumes "FourierRingIterator_init shape d = Inr it"
  shows "meshgrid it = np_meshgrid (axis (shape ! 0)) (axis (shape ! 1))"
  using assms
  by (cases shape; cases "tl shape")
     (auto simp: FourierRingIterator_init_def Let_def split: if_splits prod.splits)

lemma init_r:
  assumes "FourierRingIterator_init shape d = Inr it"
  shows "r it = arr_map2 (\<lambda>xv yv. sqrt (of_int (xv\<^sup>2 + yv\<^sup>2)))
                 (snd (meshgrid it)) (fst (meshgrid it))"
  using assms
  by (cases shape; cases "tl shape")
     (auto simp: FourierRingIterator_init_def Let_def split: if_splits prod.splits)

lemma length_r:
  assumes "FourierRingIterator_init shape d = Inr it"
  shows "length (r it) = nat (shape ! 1)"
  by (simp add: init_r [OF assms] init_meshgrid [OF assms] arr_map2_def np_meshgrid_def length_axis)

lemma length_r_row:
  assumes "FourierRingIterator_init shape d = Inr it" and "i < nat (shape ! 1)"
  shows "length (r it ! i) = nat (shape ! 0)"
  using assms(2)
  by (simp add: init_r [OF assms(1)] init_meshgrid [OF assms(1)] arr_map2_def np_meshgrid_def length_axis)

lemma nth_r:
  assumes "FourierRingIterator_init shape d = Inr it"
    and "i < nat (shape ! 1)" and "j < nat (shape ! 0)"
  shows "r it ! i ! j =
           sqrt (of_int ((int i - (shape ! 1) div 2)\<^sup>2 + (int j - (shape ! 0) div 2)\<^sup>2))"
  using assms(2,3)
  by (simp add: init_r [OF assms(1)] init_meshgrid [OF assms(1)] arr_map2_def np_meshgrid_def length_axis nth_axis)

subsection \<open>The masks, cell by cell\<close>

lemma length_get_points_on_ring: "length (get_points_on_ring self a b) = length (r self)"
  by (simp add: get_points_on_ring_def arr_mul_def arr_map2_def arr_map_def)

lemma length_get_points_on_ring_row:
  "i < length (r self) \<Longrightarrow> length (get_points_on_ring self a b ! i) = length (r self ! i)"
  by (simp add: get_points_on_ring_def arr_mul_def arr_map2_def arr_map_def)

lemma nth_get_points_on_ring:
  "i < length (r self) \<Longrightarrow> j < length (r self ! i) \<Longrightarrow>
     get_points_on_ring self a b ! i ! j \<longleftrightarrow> a \<le> r self ! i ! j \<and> r self ! i ! j < b"
  by (simp add: get_points_on_ring_def arr_mul_def arr_map2_def arr_map_def)

lemma length_get_angle_sector: "length (get_angle_sector self a b) = length (phi self)"
  by (simp add: get_angle_sector_def arr_add_def arr_mul_def arr_map2_def arr_map_def)

lemma length_get_angle_sector_row:
  "i < length (phi self) \<Longrightarrow> length (get_angle_sector self a b ! i) = length (phi self ! i)"
  by (simp add: get_angle_sector_def arr_add_def arr_mul_def arr_map2_def arr_map_def)

lemma nth_get_angle_sector:
  "i < length (phi self) \<Longrightarrow> j < length (phi self ! i) \<Longrightarrow>
     get_angle_sector self a b ! i ! j \<longleftrightarrow>
       (a \<le> phi self ! i ! j \<and> phi self ! i ! j < b) \<or>
       (a + pi \<le> phi self ! i ! j \<and> phi self ! i ! j < b + pi)"
  by (simp add: get_angle_sector_def arr_add_def arr_mul_def arr_map2_def arr_map_def)

lemma mem_np_where_arr_mul:
  "(i, j) \<in> set (np_where (arr_mul a b)) \<longleftrightarrow>
     i < length a \<and> i < length b \<and> j < length (a ! i) \<and> j < length (b ! i) \<and> a ! i ! j \<and> b ! i ! j"
  by (auto simp: set_np_where arr_mul_def arr_map2_def)

subsection \<open>Ring count and radii\<close>

lemma length_np_arange_step:
  "length (np_arange_step a b s) = nat (- ((- (b - a)) div s))"
  by (simp add: np_arange_step_def)

lemma ceil_div_cases:
  "0 < (d::int) \<Longrightarrow> - ((- n) div d) = (if d dvd n then n div d else n div d + 1)"
  by (simp add: zdiv_zminus1_eq_if mod_eq_0_iff_dvd)

text \<open>
  Claim C7, as amended. For a shape with a non-negative first extent and \<open>d_bin \<ge> 1\<close>,
  \<open>nbins\<close> is \<open>floor (shape[0] / (2 * d_bin))\<close>, which is \<open>nyquist div d_bin\<close>, and the radii
  are \<open>0, d_bin, 2 * d_bin, ...\<close> below \<open>nyquist = floor (shape[0] / 2)\<close>. Their number is
  the ceiling of \<open>nyquist / d_bin\<close>: it is \<open>nbins\<close> when \<open>d_bin\<close> divides \<open>nyquist\<close> and
  \<open>nbins + 1\<close> otherwise.
\<close>

theorem radii_length:
  assumes "FourierRingIterator_init shape d = Inr it" and "1 \<le> d" and "0 \<le> shape ! 0"
  shows "nbins it = (shape ! 0) div (2 * d)
       \<and> freq_nyq it = (shape ! 0) div 2
       \<and> nbins it = freq_nyq it div d
       \<and> radii it = map (\<lambda>k. int k * d) [0..<length (radii it)]
       \<and> int (length (radii it)) = (if d dvd freq_nyq it then nbins it else nbins it + 1)"
proof -
  let ?q = "(shape ! 0) div 2"
  have nb: "nbins it = (shape ! 0) div (2 * d)" and ny: "freq_nyq it = ?q"
    and ra: "radii it = np_arange_step 0 ?q d"
    using init_scalars [OF assms(1)] by (simp_all add: nbins_def radii_def)
  have q0: "0 \<le> ?q" using assms(3) by simp
  have nbq: "nbins it = ?q div d"
    using assms(2) by (simp add: nb zdiv_zmult2_eq)
  have qd: "0 \<le> ?q div d"
    using q0 assms(2) by (simp add: pos_imp_zdiv_nonneg_iff)
  have len: "int (length (radii it)) = (if d dvd ?q then ?q div d else ?q div d + 1)"
    using assms(2) qd by (simp add: ra length_np_arange_step ceil_div_cases)
  have els: "radii it = map (\<lambda>k. int k * d) [0..<length (radii it)]"
    by (simp add: ra np_arange_step_def)
  show ?thesis
    using nb ny nbq els len by simp
qed

text \<open>The spec's scenario: shape \<open>(8, 8)\<close> and \<open>d_bin = 1\<close> give four rings and the radii
  \<open>0, 1, 2, 3\<close>.\<close>

theorem radii_length_witness:
  "nbins (projr (FourierRingIterator_init [8, 8] 1)) = 4
   \<and> radii (projr (FourierRingIterator_init [8, 8] 1)) = [0, 1, 2, 3]"
proof -
  have i: "FourierRingIterator_init [8, 8] 1 = Inr (projr (FourierRingIterator_init [8, 8] 1))"
    by (simp add: FourierRingIterator_init_def Let_def split: prod.splits)
  have "length (radii (projr (FourierRingIterator_init [8, 8] 1))) = 4"
    using radii_length [OF i] by simp
  then show ?thesis
    using radii_length [OF i] by (simp add: upt_rec)
qed

text \<open>Claim C7 as stated fails: shape \<open>(6, 6)\<close> and \<open>d_bin = 2\<close> give one ring and two
  radii.\<close>

theorem radii_length_counterexample:
  "map_sum id (\<lambda>it. (nbins it, length (radii it), radii it)) (FourierRingIterator_init [6, 6] 2)
     = Inr (1, 2, [0, 2])"
  by (simp add: FourierRingIterator_init_def Let_def nbins_def radii_def np_arange_step_def upt_rec
      split: prod.splits)

subsection \<open>The fields of a constructed sectioned iterator\<close>

lemma sinit_base:
  assumes "SectionedFourierRingIterator_init shape d a = Inr s"
  obtains b where "FourierRingIterator_init shape d = Inr b"
    and "d_bin s = d_bin b" and "priv_nbins s = priv_nbins b" and "meshgrid s = meshgrid b"
    and "r s = r b" and "current_ring s = current_ring b" and "freq_nyq s = freq_nyq b"
    and "priv_radii s = priv_radii b"
  using assms
  by (auto simp: SectionedFourierRingIterator_init_def Let_def split: sum.splits prod.splits)

lemma sinit_angle_fields:
  assumes "SectionedFourierRingIterator_init shape d a = Inr s"
  shows "d_angle s = degrees_to_radians a" and "priv_angle s = 0"
    and "angle_sector s = get_angle_sector s 0 (of_int d)"
  using assms
  by (auto simp: SectionedFourierRingIterator_init_def Let_def get_angle_sector_def
      split: sum.splits prod.splits)

lemma sinit_phi:
  assumes "SectionedFourierRingIterator_init shape d a = Inr s"
  shows "phi s = arr_map (\<lambda>v. if v \<ge> 2 * pi then v - 2 * pi else v)
                   (arr_map (\<lambda>v. v + degrees_to_radians a / 2)
                     (arr_map (\<lambda>v. v + pi)
                       (arr_map2 (\<lambda>yv xv. np_arctan2 (of_int yv) (of_int xv))
                          (fst (meshgrid s)) (snd (meshgrid s)))))"
  using assms
  by (auto simp: SectionedFourierRingIterator_init_def Let_def
      split: sum.splits prod.splits)

lemma length_phi:
  assumes "SectionedFourierRingIterator_init shape d a = Inr s"
  shows "length (phi s) = nat (shape ! 1)"
proof -
  obtain b where b: "FourierRingIterator_init shape d = Inr b" and m: "meshgrid s = meshgrid b"
    using sinit_base [OF assms] by metis
  show ?thesis
    by (simp add: sinit_phi [OF assms] m init_meshgrid [OF b] arr_map_def arr_map2_def
        np_meshgrid_def length_axis)
qed

lemma length_phi_row:
  assumes "SectionedFourierRingIterator_init shape d a = Inr s" and "i < nat (shape ! 1)"
  shows "length (phi s ! i) = nat (shape ! 0)"
proof -
  obtain b where b: "FourierRingIterator_init shape d = Inr b" and m: "meshgrid s = meshgrid b"
    using sinit_base [OF assms(1)] by metis
  show ?thesis
    using assms(2)
    by (simp add: sinit_phi [OF assms(1)] m init_meshgrid [OF b] arr_map_def arr_map2_def
        np_meshgrid_def length_axis)
qed

lemma nth_phi:
  assumes "SectionedFourierRingIterator_init shape d a = Inr s"
    and "i < nat (shape ! 1)" and "j < nat (shape ! 0)"
  shows "phi s ! i ! j =
     (let v = np_arctan2 (of_int (int j - (shape ! 0) div 2)) (of_int (int i - (shape ! 1) div 2))
                + pi + degrees_to_radians a / 2
      in if v \<ge> 2 * pi then v - 2 * pi else v)"
proof -
  obtain b where b: "FourierRingIterator_init shape d = Inr b" and m: "meshgrid s = meshgrid b"
    using sinit_base [OF assms(1)] by metis
  show ?thesis
    using assms(2,3)
    by (simp add: sinit_phi [OF assms(1)] m init_meshgrid [OF b] arr_map_def arr_map2_def
        np_meshgrid_def length_axis nth_axis Let_def)
qed

lemma sinit_r:
  assumes "SectionedFourierRingIterator_init shape d a = Inr s"
  shows "length (r s) = nat (shape ! 1)"
    and "i < nat (shape ! 1) \<Longrightarrow> length (r s ! i) = nat (shape ! 0)"
    and "i < nat (shape ! 1) \<Longrightarrow> j < nat (shape ! 0) \<Longrightarrow> r s ! i ! j =
           sqrt (of_int ((int i - (shape ! 1) div 2)\<^sup>2 + (int j - (shape ! 0) div 2)\<^sup>2))"
proof -
  obtain b where b: "FourierRingIterator_init shape d = Inr b" and m: "r s = r b"
    using sinit_base [OF assms(1)] by metis
  show "length (r s) = nat (shape ! 1)" by (simp add: m length_r [OF b])
  show "i < nat (shape ! 1) \<Longrightarrow> length (r s ! i) = nat (shape ! 0)"
    by (simp add: m length_r_row [OF b])
  show "i < nat (shape ! 1) \<Longrightarrow> j < nat (shape ! 0) \<Longrightarrow> r s ! i ! j =
           sqrt (of_int ((int i - (shape ! 1) div 2)\<^sup>2 + (int j - (shape ! 0) div 2)\<^sup>2))"
    by (simp add: m nth_r [OF b])
qed

lemma sinit_scalars:
  assumes "SectionedFourierRingIterator_init shape d a = Inr s"
  shows "d_bin s = d" and "priv_nbins s = (shape ! 0) div (2 * d)" and "current_ring s = 0"
proof -
  obtain b where b: "FourierRingIterator_init shape d = Inr b"
    and m: "d_bin s = d_bin b" "priv_nbins s = priv_nbins b" "current_ring s = current_ring b"
    using sinit_base [OF assms(1)] by metis
  show "d_bin s = d" "priv_nbins s = (shape ! 0) div (2 * d)" "current_ring s = 0"
    using init_scalars [OF b] m by simp_all
qed

lemma init_projr:
  "length shape = 2 \<Longrightarrow> d \<noteq> 0 \<Longrightarrow>
     FourierRingIterator_init shape d = Inr (projr (FourierRingIterator_init shape d))"
  by (simp add: FourierRingIterator_init_def Let_def split: prod.splits)

lemma sinit_projr:
  "length shape = 2 \<Longrightarrow> d \<noteq> 0 \<Longrightarrow>
     SectionedFourierRingIterator_init shape d a =
       Inr (projr (SectionedFourierRingIterator_init shape d a))"
  by (simp add: SectionedFourierRingIterator_init_def FourierRingIterator_init_def Let_def
      split: prod.splits)

subsection \<open>What the constructors reject\<close>

text \<open>
  Claim C4, as amended. Neither constructor looks at the sign of \<open>d_bin\<close> or of \<open>d_angle\<close>.
  Construction fails in two cases only: a shape that does not have two elements
  (the assertion), and \<open>d_bin = 0\<close> (the division computing the ring count). Every other
  input, negative \<open>d_bin\<close> and any \<open>d_angle\<close> included, yields an iterator.
\<close>

theorem init_failures:
  "(FourierRingIterator_init shape d =
      (if length shape \<noteq> 2 then Inl AssertionError
       else if d = 0 then Inl ZeroDivisionError
       else Inr (projr (FourierRingIterator_init shape d))))
   \<and> (SectionedFourierRingIterator_init shape d a =
      (if length shape \<noteq> 2 then Inl AssertionError
       else if d = 0 then Inl ZeroDivisionError
       else Inr (projr (SectionedFourierRingIterator_init shape d a))))"
  by (simp add: SectionedFourierRingIterator_init_def FourierRingIterator_init_def Let_def
      split: prod.splits)

theorem init_failures_witness:
  "FourierRingIterator_init [4, 4] (- 1) = Inr (projr (FourierRingIterator_init [4, 4] (- 1)))
   \<and> SectionedFourierRingIterator_init [4, 4] 1 (- 90)
       = Inr (projr (SectionedFourierRingIterator_init [4, 4] 1 (- 90)))
   \<and> FourierRingIterator_init [4, 4] 0 = Inl ZeroDivisionError
   \<and> FourierRingIterator_init [4, 4, 4] 1 = Inl AssertionError"
  using init_failures [of "[4, 4]" "- 1" 0] init_failures [of "[4, 4]" 1 "- 90"]
    init_failures [of "[4, 4]" 0 0] init_failures [of "[4, 4, 4]" 1 0]
  by simp

text \<open>Claim C4 as stated fails: \<open>d_bin = - 1\<close> and \<open>d_angle = - 90\<close> or \<open>0\<close> are accepted, and
  \<open>d_bin = 0\<close> is refused by the division, not by a parameter check.\<close>

theorem init_failures_counterexample:
  "\<not> isl (FourierRingIterator_init [4, 4] (- 1))
   \<and> \<not> isl (SectionedFourierRingIterator_init [4, 4] (- 1) 90)
   \<and> \<not> isl (SectionedFourierRingIterator_init [4, 4] 1 (- 90))
   \<and> \<not> isl (SectionedFourierRingIterator_init [4, 4] 1 0)
   \<and> FourierRingIterator_init [4, 4] 0 = Inl ZeroDivisionError
   \<and> SectionedFourierRingIterator_init [4, 4] 0 90 = Inl ZeroDivisionError"
  by (simp add: SectionedFourierRingIterator_init_def FourierRingIterator_init_def Let_def
      split: prod.splits)

subsection \<open>Random access\<close>

text \<open>
  Claim C9. A call of \<open>getitem\<close> returns the object as it found it, so the cursor, the
  current angle and the cached sector mask are unchanged, and a second call with the
  same arguments returns what the first returned.
\<close>

theorem getitem_pure:
  "snd (getitem self key) = self
   \<and> getitem (snd (getitem self key)) key = getitem self key
   \<and> current_ring (snd (getitem self key)) = current_ring self
   \<and> priv_angle (snd (getitem self key)) = priv_angle self
   \<and> angle_sector (snd (getitem self key)) = angle_sector self"
proof -
  have "snd (getitem self key) = self"
    by (cases key) (simp add: getitem_def Let_def)
  then show ?thesis by simp
qed

theorem getitem_pure_witness:
  "getitem (snd (getitem (projr (SectionedFourierRingIterator_init [4, 4] 1 90)) (0, 1, 0, 90)))
       (0, 1, 0, 90)
     = getitem (projr (SectionedFourierRingIterator_init [4, 4] 1 90)) (0, 1, 0, 90)"
  using getitem_pure [of "projr (SectionedFourierRingIterator_init [4, 4] 1 90)" "(0, 1, 0, 90)"]
  by simp

subsection \<open>The current-angle property\<close>

text \<open>
  Claim C8, as amended. The setter takes degrees and stores radians; the getter returns
  what is stored. Setting the angle to \<open>x\<close> and reading it back gives \<open>x * pi / 180\<close>,
  which is \<open>x\<close> only for \<open>x = 0\<close>. The setter also recomputes the cached sector mask, for
  the bounds \<open>a\<close> and \<open>a + d_angle\<close> with \<open>a\<close> the angle in radians, and leaves the cursor
  alone.
\<close>

theorem angle_set_get:
  "angle (angle_setter self x) = degrees_to_radians x
   \<and> angle (angle_setter self x) = x * pi / 180
   \<and> (angle (angle_setter self x) = x \<longleftrightarrow> x = 0)
   \<and> angle_sector (angle_setter self x)
       = get_angle_sector self (degrees_to_radians x) (degrees_to_radians x + d_angle self)
   \<and> current_ring (angle_setter self x) = current_ring self"
proof -
  have a: "angle (angle_setter self x) = x * pi / 180"
    by (simp add: angle_def angle_setter_def Let_def degrees_to_radians_def)
  have "pi < 180" using pi_less_4 by linarith
  then have b: "x * pi / 180 = x \<longleftrightarrow> x = 0" by (auto simp: field_simps)
  have c: "get_angle_sector (self\<lparr>priv_angle := v\<rparr>) p q = get_angle_sector self p q" for v p q
    by (simp add: get_angle_sector_def)
  have d: "angle_sector (angle_setter self x)
       = get_angle_sector self (degrees_to_radians x) (degrees_to_radians x + d_angle self)"
    by (simp add: angle_setter_def Let_def c)
  have e: "current_ring (angle_setter self x) = current_ring self"
    by (simp add: angle_setter_def Let_def)
  have a1: "angle (angle_setter self x) = degrees_to_radians x"
    by (simp add: angle_def angle_setter_def Let_def)
  have a3: "angle (angle_setter self x) = x \<longleftrightarrow> x = 0"
    unfolding a by (rule b)
  show ?thesis
    by (intro conjI a1 a a3 d e)
qed

theorem angle_set_get_witness:
  "angle (angle_setter (projr (SectionedFourierRingIterator_init [4, 4] 1 90)) 180) = pi"
  using angle_set_get [of "projr (SectionedFourierRingIterator_init [4, 4] 1 90)" 180]
  by simp

text \<open>Claim C8 as stated fails: after setting the angle to \<open>180\<close> the property reads
  \<open>pi\<close>.\<close>

theorem angle_set_get_counterexample:
  "map_sum id (\<lambda>it. angle (angle_setter it 180)) (SectionedFourierRingIterator_init [4, 4] 1 90)
     = Inr pi \<and> pi \<noteq> 180"
proof -
  have "pi < 180" using pi_less_4 by linarith
  then show ?thesis
    by (simp add: SectionedFourierRingIterator_init_def FourierRingIterator_init_def Let_def
        angle_def angle_setter_def degrees_to_radians_def split: prod.splits)
qed

subsection \<open>The shape of the grid\<close>

text \<open>
  Claim C3 at the shape \<open>(2, 4)\<close> with \<open>d_bin = 1\<close>. The grids have four rows of two
  columns, the transpose of the image shape, and the first step returns the pair
  \<open>(2, 1)\<close>, whose row index is outside an image of two rows.
\<close>

theorem grid_shape_2_4:
  "map_sum id (\<lambda>it. (length (fst (meshgrid it)), map length (fst (meshgrid it)),
                         fst (FourierRingIterator_next it)))
            (FourierRingIterator_init [2, 4] 1) = Inr (4, [2, 2, 2, 2], Inr ([(2, 1)], 0))"
  by (simp add: FourierRingIterator_init_def Let_def axis_def np_arange_def np_meshgrid_def
      arr_map2_def arr_map_def arr_mul_def FourierRingIterator_next_def get_points_on_ring_def
      np_where_def upto_rec1 upt_rec)

subsection \<open>Rings\<close>

lemma ring_bounds_disjoint:
  fixes k k' d :: int and v :: real
  assumes "k < k'" and "of_int (k * d) \<le> v" and "v < of_int ((k + 1) * d)"
    and "of_int (k' * d) \<le> v" and "v < of_int ((k' + 1) * d)"
  shows False
proof (cases "0 < d")
  case True
  have "k + 1 \<le> k'" using assms(1) by simp
  then have "(k + 1) * d \<le> k' * d" using True by (simp add: mult_right_mono)
  then have "(of_int ((k + 1) * d) :: real) \<le> of_int (k' * d)" by (simp only: of_int_le_iff)
  then show False using assms(3,4) by linarith
next
  case False
  then have "(k + 1) * d \<le> k * d" by (simp add: algebra_simps)
  then have "(of_int ((k + 1) * d) :: real) \<le> of_int (k * d)" by (simp only: of_int_le_iff)
  then show False using assms(2,3) by linarith
qed

lemma rings_disjoint:
  assumes "k \<noteq> k'"
  shows "set (np_where (get_points_on_ring self (of_int (k * d)) (of_int ((k + 1) * d))))
         \<inter> set (np_where (get_points_on_ring self (of_int (k' * d)) (of_int ((k' + 1) * d)))) = {}"
proof -
  have "False" if "i < length (r self)" "j < length (r self ! i)"
     "get_points_on_ring self (of_int (k * d)) (of_int ((k + 1) * d)) ! i ! j"
     "get_points_on_ring self (of_int (k' * d)) (of_int ((k' + 1) * d)) ! i ! j" for i j
  proof -
    have a: "of_int (k * d) \<le> r self ! i ! j" "r self ! i ! j < of_int ((k + 1) * d)"
      using that(3) nth_get_points_on_ring [OF that(1,2)] by blast+
    have b: "of_int (k' * d) \<le> r self ! i ! j" "r self ! i ! j < of_int ((k' + 1) * d)"
      using that(4) nth_get_points_on_ring [OF that(1,2)] by blast+
    consider "k < k'" | "k' < k" using assms by linarith
    then show False
      using ring_bounds_disjoint [OF _ a b] ring_bounds_disjoint [OF _ b a] by cases blast+
  qed
  then show ?thesis
    unfolding set_np_where length_get_points_on_ring
    by (auto simp: length_get_points_on_ring_row)
qed

text \<open>
  Claim C6. For every iterator and all real bounds, the mask of \<open>get_points_on_ring\<close> has
  the shape of the radius field and is true at a cell exactly when the radius there is at
  least the lower bound and below the upper bound. So the rings \<open>k\<close> and \<open>k'\<close> of thickness
  \<open>d\<close>, for distinct \<open>k\<close> and \<open>k'\<close>, share no coordinate pair.
\<close>

theorem points_on_ring_mask:
  "length (get_points_on_ring self a b) = length (r self)
   \<and> (\<forall>i<length (r self). length (get_points_on_ring self a b ! i) = length (r self ! i)
        \<and> (\<forall>j<length (r self ! i).
              get_points_on_ring self a b ! i ! j \<longleftrightarrow> a \<le> r self ! i ! j \<and> r self ! i ! j < b))
   \<and> (k \<noteq> k' \<longrightarrow>
        set (np_where (get_points_on_ring self (of_int (k * d)) (of_int ((k + 1) * d))))
        \<inter> set (np_where (get_points_on_ring self (of_int (k' * d)) (of_int ((k' + 1) * d)))) = {})"
  using rings_disjoint [of k k' self d]
  by (simp add: length_get_points_on_ring length_get_points_on_ring_row nth_get_points_on_ring)

theorem points_on_ring_mask_witness:
  "get_points_on_ring (projr (FourierRingIterator_init [4, 4] 1)) 0 1 ! 2 ! 2
   \<and> \<not> get_points_on_ring (projr (FourierRingIterator_init [4, 4] 1)) 1 2 ! 2 ! 2
   \<and> get_points_on_ring (projr (FourierRingIterator_init [4, 4] 1)) 1 2 ! 2 ! 3
   \<and> set (np_where (get_points_on_ring (projr (FourierRingIterator_init [4, 4] 1)) 0 1))
       \<inter> set (np_where (get_points_on_ring (projr (FourierRingIterator_init [4, 4] 1)) 1 2)) = {}"
proof -
  define it where "it = projr (FourierRingIterator_init [4, 4] 1)"
  have i: "FourierRingIterator_init [4, 4] 1 = Inr it"
    unfolding it_def by (rule init_projr) simp_all
  have l: "2 < length (r it)" "2 < length (r it ! 2)" "3 < length (r it ! 2)"
    using length_r [OF i] length_r_row [OF i, of 2] by simp_all
  have v: "r it ! 2 ! 2 = 0" "r it ! 2 ! 3 = 1"
    using nth_r [OF i, of 2 2] nth_r [OF i, of 2 3] by simp_all
  have m: "get_points_on_ring it a b ! 2 ! j \<longleftrightarrow> a \<le> r it ! 2 ! j \<and> r it ! 2 ! j < b"
    if "j < length (r it ! 2)" for a b j
    using points_on_ring_mask [of it a b 0 0 0] l(1) that by blast
  have d: "set (np_where (get_points_on_ring it 0 1))
             \<inter> set (np_where (get_points_on_ring it 1 2)) = {}"
    using points_on_ring_mask [of it 0 0 0 1 1] by simp
  show ?thesis
    unfolding it_def [symmetric] using m [OF l(2)] m [OF l(3)] d v by simp
qed

subsection \<open>The cursor\<close>

lemma next_lt:
  assumes "current_ring self < priv_nbins self"
  shows "FourierRingIterator_next self =
     (Inr (np_where (get_points_on_ring self (of_int (current_ring self * d_bin self))
                      (of_int ((current_ring self + 1) * d_bin self))), current_ring self),
      self\<lparr>current_ring := current_ring self + 1\<rparr>)"
  using assms by (simp add: FourierRingIterator_next_def Let_def get_points_on_ring_def)

lemma next_ge:
  assumes "\<not> current_ring self < priv_nbins self"
  shows "FourierRingIterator_next self = (Inl StopIteration, self)"
  using assms by (simp add: FourierRingIterator_next_def)

lemma snext_lt:
  assumes "current_ring self < priv_nbins self"
  shows "SectionedFourierRingIterator_next self =
     (Inr (np_where (arr_mul (get_points_on_ring self (of_int (current_ring self * d_bin self))
                      (of_int ((current_ring self + 1) * d_bin self))) (angle_sector self)),
           current_ring self),
      self\<lparr>current_ring := current_ring self + 1\<rparr>)"
  using assms by (simp add: SectionedFourierRingIterator_next_def Let_def get_points_on_ring_def)

lemma snext_ge:
  assumes "\<not> current_ring self < priv_nbins self"
  shows "SectionedFourierRingIterator_next self = (Inl StopIteration, self)"
  using assms by (simp add: SectionedFourierRingIterator_next_def)

lemma gpr_cursor [simp]:
  "get_points_on_ring (self\<lparr>current_ring := c\<rparr>) a b = get_points_on_ring self a b"
  by (simp add: get_points_on_ring_def)

lemma funpow_next:
  assumes "current_ring self = 0" and "0 \<le> priv_nbins self"
  shows "((\<lambda>s. snd (FourierRingIterator_next s)) ^^ n) self
           = self\<lparr>current_ring := min (int n) (priv_nbins self)\<rparr>"
proof (induction n)
  case 0
  then show ?case using assms by simp
next
  case (Suc n)
  show ?case
  proof (cases "int n < priv_nbins self")
    case True
    then show ?thesis using Suc by (simp add: next_lt min_def)
  next
    case False
    then show ?thesis using Suc by (simp add: next_ge min_def)
  qed
qed

lemma funpow_snext:
  assumes "current_ring self = 0" and "0 \<le> priv_nbins self"
  shows "((\<lambda>s. snd (SectionedFourierRingIterator_next s)) ^^ n) self
           = self\<lparr>current_ring := min (int n) (priv_nbins self)\<rparr>"
proof (induction n)
  case 0
  then show ?case using assms by simp
next
  case (Suc n)
  show ?case
  proof (cases "int n < priv_nbins self")
    case True
    then show ?thesis using Suc by (simp add: snext_lt min_def)
  next
    case False
    then show ?thesis using Suc by (simp add: snext_ge min_def)
  qed
qed

lemma nbins_nonneg:
  assumes "FourierRingIterator_init shape d = Inr it" and "1 \<le> d" and "0 \<le> shape ! 0"
  shows "0 \<le> priv_nbins it"
  using assms(2,3) by (simp add: init_scalars(3) [OF assms(1)] pos_imp_zdiv_nonneg_iff)

text \<open>
  Claim C5. Take the two iterators constructed from a shape with a non-negative first
  extent and \<open>d_bin \<ge> 1\<close>. Both start at ring \<open>0\<close>, and \<open>nbins \<ge> 0\<close>. After \<open>n\<close> calls of
  \<open>next\<close> the object is the constructed one with \<open>current_ring = min n nbins\<close>, so the
  cursor stays between \<open>0\<close> and \<open>nbins\<close>. The call that follows returns the coordinates
  of ring \<open>n\<close> (for the sectioned iterator, those inside the cached sector mask) paired
  with \<open>n\<close>, and moves the cursor to \<open>n + 1\<close>, when \<open>n < nbins\<close>; otherwise it raises
  \<open>StopIteration\<close> and leaves the cursor at \<open>nbins\<close>. A full iteration is therefore
  \<open>nbins\<close> steps with the ring indices \<open>0, 1, ..., nbins - 1\<close>, and every later call
  raises.
\<close>

theorem cursor_state_machine:
  assumes "FourierRingIterator_init shape d = Inr p"
    and "SectionedFourierRingIterator_init shape d a = Inr s"
    and "1 \<le> d" and "0 \<le> shape ! 0"
  shows "current_ring p = 0 \<and> current_ring s = 0
     \<and> nbins p = (shape ! 0) div (2 * d) \<and> nbins s = nbins p \<and> 0 \<le> nbins p
     \<and> ((\<lambda>x. snd (FourierRingIterator_next x)) ^^ n) p
          = p\<lparr>current_ring := min (int n) (nbins p)\<rparr>
     \<and> 0 \<le> current_ring (((\<lambda>x. snd (FourierRingIterator_next x)) ^^ n) p)
     \<and> current_ring (((\<lambda>x. snd (FourierRingIterator_next x)) ^^ n) p) \<le> nbins p
     \<and> FourierRingIterator_next (((\<lambda>x. snd (FourierRingIterator_next x)) ^^ n) p)
          = (if int n < nbins p
             then (Inr (np_where (get_points_on_ring p (of_int (int n * d))
                                    (of_int ((int n + 1) * d))), int n),
                   p\<lparr>current_ring := int n + 1\<rparr>)
             else (Inl StopIteration, p\<lparr>current_ring := nbins p\<rparr>))
     \<and> ((\<lambda>x. snd (SectionedFourierRingIterator_next x)) ^^ n) s
          = s\<lparr>current_ring := min (int n) (nbins s)\<rparr>
     \<and> 0 \<le> current_ring (((\<lambda>x. snd (SectionedFourierRingIterator_next x)) ^^ n) s)
     \<and> current_ring (((\<lambda>x. snd (SectionedFourierRingIterator_next x)) ^^ n) s) \<le> nbins s
     \<and> SectionedFourierRingIterator_next
          (((\<lambda>x. snd (SectionedFourierRingIterator_next x)) ^^ n) s)
          = (if int n < nbins s
             then (Inr (np_where (arr_mul (get_points_on_ring s (of_int (int n * d))
                                    (of_int ((int n + 1) * d))) (angle_sector s)), int n),
                   s\<lparr>current_ring := int n + 1\<rparr>)
             else (Inl StopIteration, s\<lparr>current_ring := nbins s\<rparr>))"
proof -
  have p0: "current_ring p = 0" and pd: "d_bin p = d"
    and pn: "priv_nbins p = (shape ! 0) div (2 * d)"
    using init_scalars [OF assms(1)] by simp_all
  have s0: "current_ring s = 0" and sd: "d_bin s = d"
    and sn: "priv_nbins s = (shape ! 0) div (2 * d)"
    using sinit_scalars [OF assms(2)] by simp_all
  have nn: "0 \<le> priv_nbins p" by (rule nbins_nonneg [OF assms(1,3,4)])
  then have sn0: "0 \<le> priv_nbins s" by (simp add: sn pn)
  have fp: "((\<lambda>x. snd (FourierRingIterator_next x)) ^^ n) p
          = p\<lparr>current_ring := min (int n) (priv_nbins p)\<rparr>"
    by (rule funpow_next [OF p0 nn])
  have fs: "((\<lambda>x. snd (SectionedFourierRingIterator_next x)) ^^ n) s
          = s\<lparr>current_ring := min (int n) (priv_nbins s)\<rparr>"
    by (rule funpow_snext [OF s0 sn0])
  have np: "FourierRingIterator_next (p\<lparr>current_ring := min (int n) (priv_nbins p)\<rparr>)
          = (if int n < priv_nbins p
             then (Inr (np_where (get_points_on_ring p (of_int (int n * d))
                                    (of_int ((int n + 1) * d))), int n),
                   p\<lparr>current_ring := int n + 1\<rparr>)
             else (Inl StopIteration, p\<lparr>current_ring := priv_nbins p\<rparr>))"
    by (simp add: next_lt next_ge min_def pd)
  have ns: "SectionedFourierRingIterator_next (s\<lparr>current_ring := min (int n) (priv_nbins s)\<rparr>)
          = (if int n < priv_nbins s
             then (Inr (np_where (arr_mul (get_points_on_ring s (of_int (int n * d))
                                    (of_int ((int n + 1) * d))) (angle_sector s)), int n),
                   s\<lparr>current_ring := int n + 1\<rparr>)
             else (Inl StopIteration, s\<lparr>current_ring := priv_nbins s\<rparr>))"
    by (simp add: snext_lt snext_ge min_def sd)
  have bp: "0 \<le> min (int n) (priv_nbins p)" "min (int n) (priv_nbins p) \<le> priv_nbins p"
    using nn by simp_all
  have bs: "0 \<le> min (int n) (priv_nbins s)" "min (int n) (priv_nbins s) \<le> priv_nbins s"
    using sn0 by simp_all
  show ?thesis
    unfolding nbins_def fp fs np ns
    using p0 s0 pn sn nn bp bs by simp
qed

theorem cursor_state_machine_witness:
  "map_sum id snd (fst (FourierRingIterator_next
       (((\<lambda>x. snd (FourierRingIterator_next x)) ^^ 1)
          (projr (FourierRingIterator_init [4, 4] 1))))) = Inr 1
   \<and> fst (FourierRingIterator_next
       (((\<lambda>x. snd (FourierRingIterator_next x)) ^^ 2)
          (projr (FourierRingIterator_init [4, 4] 1)))) = Inl StopIteration
   \<and> map_sum id snd (fst (SectionedFourierRingIterator_next
       (((\<lambda>x. snd (SectionedFourierRingIterator_next x)) ^^ 1)
          (projr (SectionedFourierRingIterator_init [4, 4] 1 90))))) = Inr 1
   \<and> fst (SectionedFourierRingIterator_next
       (((\<lambda>x. snd (SectionedFourierRingIterator_next x)) ^^ 2)
          (projr (SectionedFourierRingIterator_init [4, 4] 1 90)))) = Inl StopIteration"
proof -
  define p where "p = projr (FourierRingIterator_init [4, 4] 1)"
  define s where "s = projr (SectionedFourierRingIterator_init [4, 4] 1 90)"
  have i: "FourierRingIterator_init [4, 4] 1 = Inr p"
    unfolding p_def by (rule init_projr) simp_all
  have j: "SectionedFourierRingIterator_init [4, 4] 1 90 = Inr s"
    unfolding s_def by (rule sinit_projr) simp_all
  have h: "(1::int) \<le> 1" "(0::int) \<le> [4, 4] ! 0" by simp_all
  note c1 = cursor_state_machine [OF i j h, of 1]
  note c2 = cursor_state_machine [OF i j h, of 2]
  have n: "nbins p = 2" "nbins s = 2" using c1 by simp_all
  have a1: "FourierRingIterator_next (((\<lambda>x. snd (FourierRingIterator_next x)) ^^ 1) p)
     = (Inr (np_where (get_points_on_ring p (of_int (int 1 * 1)) (of_int ((int 1 + 1) * 1))), int 1),
        p\<lparr>current_ring := int 1 + 1\<rparr>)"
    using c1 unfolding n by (elim conjE) simp
  have a2: "FourierRingIterator_next (((\<lambda>x. snd (FourierRingIterator_next x)) ^^ 2) p)
     = (Inl StopIteration, p\<lparr>current_ring := 2\<rparr>)"
    using c2 unfolding n by (elim conjE) simp
  have b1: "SectionedFourierRingIterator_next
       (((\<lambda>x. snd (SectionedFourierRingIterator_next x)) ^^ 1) s)
     = (Inr (np_where (arr_mul (get_points_on_ring s (of_int (int 1 * 1))
           (of_int ((int 1 + 1) * 1))) (angle_sector s)), int 1), s\<lparr>current_ring := int 1 + 1\<rparr>)"
    using c1 unfolding n by (elim conjE) simp
  have b2: "SectionedFourierRingIterator_next
       (((\<lambda>x. snd (SectionedFourierRingIterator_next x)) ^^ 2) s)
     = (Inl StopIteration, s\<lparr>current_ring := 2\<rparr>)"
    using c2 unfolding n by (elim conjE) simp
  show ?thesis
    unfolding p_def [symmetric] s_def [symmetric] a1 a2 b1 b2 by simp
qed

subsection \<open>The sector mask\<close>

lemma sector_cell:
  assumes "SectionedFourierRingIterator_init shape d a = Inr s"
    and "i < nat (shape ! 1)" and "j < nat (shape ! 0)"
  shows "get_angle_sector s lo hi ! i ! j \<longleftrightarrow>
       (lo \<le> phi s ! i ! j \<and> phi s ! i ! j < hi) \<or>
       (lo + pi \<le> phi s ! i ! j \<and> phi s ! i ! j < hi + pi)"
  using assms(2,3)
  by (simp add: nth_get_angle_sector length_phi [OF assms(1)] length_phi_row [OF assms(1)])

lemma phi_4_4_360_3_2:
  "phi (projr (SectionedFourierRingIterator_init [4, 4] 1 360)) ! 3 ! 2 = 0"
proof -
  have j: "SectionedFourierRingIterator_init [4, 4] 1 360
             = Inr (projr (SectionedFourierRingIterator_init [4, 4] 1 360))"
    by (rule sinit_projr) simp_all
  show ?thesis
    using nth_phi [OF j, of 3 2]
    by (simp add: np_arctan2_def degrees_to_radians_def Let_def)
qed

lemma phi_4_4_180_3_2:
  "phi (projr (SectionedFourierRingIterator_init [4, 4] 1 180)) ! 3 ! 2 = 3 * pi / 2"
proof -
  have j: "SectionedFourierRingIterator_init [4, 4] 1 180
             = Inr (projr (SectionedFourierRingIterator_init [4, 4] 1 180))"
    by (rule sinit_projr) simp_all
  show ?thesis
    using nth_phi [OF j, of 3 2]
    by (simp add: np_arctan2_def degrees_to_radians_def Let_def)
qed

lemma phi_4_4_360_2_3:
  "phi (projr (SectionedFourierRingIterator_init [4, 4] 1 360)) ! 2 ! 3 = pi / 2"
proof -
  have j: "SectionedFourierRingIterator_init [4, 4] 1 360
             = Inr (projr (SectionedFourierRingIterator_init [4, 4] 1 360))"
    by (rule sinit_projr) simp_all
  show ?thesis
    using nth_phi [OF j, of 2 3]
    by (simp add: np_arctan2_def degrees_to_radians_def Let_def)
qed

lemma phi_4_4_90_2_3:
  "phi (projr (SectionedFourierRingIterator_init [4, 4] 1 90)) ! 2 ! 3 = 7 * pi / 4"
proof -
  have j: "SectionedFourierRingIterator_init [4, 4] 1 90
             = Inr (projr (SectionedFourierRingIterator_init [4, 4] 1 90))"
    by (rule sinit_projr) simp_all
  show ?thesis
    using nth_phi [OF j, of 2 3]
    by (simp add: np_arctan2_def degrees_to_radians_def Let_def)
qed

lemma ring_cell:
  assumes "SectionedFourierRingIterator_init shape d a = Inr s"
    and "i < nat (shape ! 1)" and "j < nat (shape ! 0)"
  shows "get_points_on_ring s lo hi ! i ! j \<longleftrightarrow> lo \<le> r s ! i ! j \<and> r s ! i ! j < hi"
  using assms(2,3) by (simp add: nth_get_points_on_ring sinit_r(1,2) [OF assms(1)])

lemma mem_ring_sector:
  assumes "SectionedFourierRingIterator_init shape d a = Inr s"
    and "i < nat (shape ! 1)" and "j < nat (shape ! 0)"
  shows "(i, j) \<in> set (np_where (arr_mul (get_points_on_ring s lo hi) (get_angle_sector s lo' hi')))
      \<longleftrightarrow> get_points_on_ring s lo hi ! i ! j \<and> get_angle_sector s lo' hi' ! i ! j"
  using assms(2,3)
  by (simp add: mem_np_where_arr_mul length_get_points_on_ring length_get_points_on_ring_row
      length_get_angle_sector length_get_angle_sector_row sinit_r(1,2) [OF assms(1)]
      length_phi [OF assms(1)] length_phi_row [OF assms(1)])

text \<open>
  Claim C10, as amended. In a freshly constructed sectioned iterator the cached sector
  mask is \<open>get_angle_sector 0 d_bin\<close>: it has the shape of the angle field and is true at a
  cell exactly when the angle there lies in \<open>[0, d_bin)\<close> or in \<open>[pi, d_bin + pi)\<close>, with the
  ring thickness used as a bound in radians. The bounds come from \<open>d_bin\<close> alone; the mask
  still depends on \<open>d_angle\<close>, since the angle field is the polar angle plus \<open>pi\<close> plus half
  the angle step, less \<open>2 * pi\<close> where that reaches \<open>2 * pi\<close>.
\<close>

theorem initial_sector:
  assumes "SectionedFourierRingIterator_init shape d a = Inr s"
  shows "angle_sector s = get_angle_sector s 0 (of_int d)
     \<and> length (angle_sector s) = nat (shape ! 1)
     \<and> (\<forall>i<nat (shape ! 1). length (angle_sector s ! i) = nat (shape ! 0)
          \<and> (\<forall>j<nat (shape ! 0).
               (angle_sector s ! i ! j \<longleftrightarrow>
                  (0 \<le> phi s ! i ! j \<and> phi s ! i ! j < of_int d) \<or>
                  (pi \<le> phi s ! i ! j \<and> phi s ! i ! j < of_int d + pi))
             \<and> phi s ! i ! j =
                 (let v = np_arctan2 (of_int (int j - (shape ! 0) div 2))
                                     (of_int (int i - (shape ! 1) div 2))
                          + pi + degrees_to_radians a / 2
                  in if v \<ge> 2 * pi then v - 2 * pi else v)))"
proof -
  have e: "angle_sector s = get_angle_sector s 0 (of_int d)"
    by (rule sinit_angle_fields(3) [OF assms])
  have l: "length (angle_sector s) = nat (shape ! 1)"
    by (simp add: e length_get_angle_sector length_phi [OF assms])
  have r: "length (angle_sector s ! i) = nat (shape ! 0)" if "i < nat (shape ! 1)" for i
    using that
    by (simp add: e length_get_angle_sector_row length_phi [OF assms] length_phi_row [OF assms])
  have c: "angle_sector s ! i ! j \<longleftrightarrow>
                  (0 \<le> phi s ! i ! j \<and> phi s ! i ! j < of_int d) \<or>
                  (pi \<le> phi s ! i ! j \<and> phi s ! i ! j < of_int d + pi)"
    if "i < nat (shape ! 1)" "j < nat (shape ! 0)" for i j
    using sector_cell [OF assms that, of 0 "of_int d"] by (simp add: e)
  show ?thesis
    using e l r c nth_phi [OF assms] by blast
qed

theorem initial_sector_witness:
  "angle_sector (projr (SectionedFourierRingIterator_init [4, 4] 1 360)) ! 3 ! 2"
proof -
  define s where "s = projr (SectionedFourierRingIterator_init [4, 4] 1 360)"
  have j: "SectionedFourierRingIterator_init [4, 4] 1 360 = Inr s"
    unfolding s_def by (rule sinit_projr) simp_all
  have p: "phi s ! 3 ! 2 = 0" unfolding s_def by (rule phi_4_4_360_3_2)
  have b: "(3::nat) < nat ([4, 4::int] ! 1)" "(2::nat) < nat ([4, 4::int] ! 0)" by simp_all
  have "angle_sector s ! 3 ! 2 \<longleftrightarrow>
          (0 \<le> phi s ! 3 ! 2 \<and> phi s ! 3 ! 2 < of_int 1) \<or>
          (pi \<le> phi s ! 3 ! 2 \<and> phi s ! 3 ! 2 < of_int 1 + pi)"
    using initial_sector [OF j] b by blast
  then show ?thesis unfolding s_def [symmetric] p by simp
qed

text \<open>Claim C10 as stated fails: for shape \<open>(4, 4)\<close> and \<open>d_bin = 1\<close> the cell \<open>(3, 2)\<close> is in
  the initial mask when \<open>d_angle\<close> is 360 degrees and outside it when \<open>d_angle\<close> is 180
  degrees.\<close>

theorem initial_sector_counterexample:
  "angle_sector (projr (SectionedFourierRingIterator_init [4, 4] 1 360)) ! 3 ! 2
   \<and> \<not> angle_sector (projr (SectionedFourierRingIterator_init [4, 4] 1 180)) ! 3 ! 2"
proof -
  define s where "s = projr (SectionedFourierRingIterator_init [4, 4] 1 360)"
  define t where "t = projr (SectionedFourierRingIterator_init [4, 4] 1 180)"
  have j: "SectionedFourierRingIterator_init [4, 4] 1 360 = Inr s"
    unfolding s_def by (rule sinit_projr) simp_all
  have k: "SectionedFourierRingIterator_init [4, 4] 1 180 = Inr t"
    unfolding t_def by (rule sinit_projr) simp_all
  have p: "phi s ! 3 ! 2 = 0" unfolding s_def by (rule phi_4_4_360_3_2)
  have q: "phi t ! 3 ! 2 = 3 * pi / 2" unfolding t_def by (rule phi_4_4_180_3_2)
  have a: "angle_sector s ! 3 ! 2"
    using sector_cell [OF j, of 3 2 0 1] by (simp add: sinit_angle_fields(3) [OF j] p)
  have b: "\<not> angle_sector t ! 3 ! 2"
    using sector_cell [OF k, of 3 2 0 1] pi_ge_two
    by (simp add: sinit_angle_fields(3) [OF k] q)
  show ?thesis unfolding s_def [symmetric] t_def [symmetric] using a b by simp
qed

text \<open>
  Claim C1 at the shape \<open>(4, 4)\<close> with \<open>d_bin = 1\<close> and \<open>d_angle\<close> of 360 degrees, with no
  assignment to the current angle. The second step of both iterators is ring \<open>1\<close>; the
  plain iterator returns the pair \<open>(2, 3)\<close> there and the sectioned one does not.
\<close>

theorem sectioned_360_ring_1:
  "(case (fst (FourierRingIterator_next
               (snd (FourierRingIterator_next (projr (FourierRingIterator_init [4, 4] 1))))),
          fst (SectionedFourierRingIterator_next
               (snd (SectionedFourierRingIterator_next
                      (projr (SectionedFourierRingIterator_init [4, 4] 1 360))))))
    of (Inr (cp, kp), Inr (cs, ks)) \<Rightarrow>
         kp = 1 \<and> ks = 1 \<and> (2, 3) \<in> set cp \<and> (2, 3) \<notin> set cs
     | _ \<Rightarrow> False)"
proof -
  define p where "p = projr (FourierRingIterator_init [4, 4] 1)"
  define s where "s = projr (SectionedFourierRingIterator_init [4, 4] 1 360)"
  have i: "FourierRingIterator_init [4, 4] 1 = Inr p"
    unfolding p_def by (rule init_projr) simp_all
  have j: "SectionedFourierRingIterator_init [4, 4] 1 360 = Inr s"
    unfolding s_def by (rule sinit_projr) simp_all
  have ps: "current_ring p = 0" "priv_nbins p = 2" "d_bin p = 1"
    using init_scalars [OF i] by simp_all
  have ss: "current_ring s = 0" "priv_nbins s = 2" "d_bin s = 1"
    using sinit_scalars [OF j] by simp_all
  have b: "(2::nat) < nat ([4, 4::int] ! 1)" "(3::nat) < nat ([4, 4::int] ! 0)" by simp_all
  have np: "fst (FourierRingIterator_next (snd (FourierRingIterator_next p)))
      = Inr (np_where (get_points_on_ring p 1 2), 1)"
    by (simp add: next_lt ps)
  have ns: "fst (SectionedFourierRingIterator_next (snd (SectionedFourierRingIterator_next s)))
      = Inr (np_where (arr_mul (get_points_on_ring s 1 2) (get_angle_sector s 0 1)), 1)"
    using sinit_angle_fields(3) [OF j] by (simp add: snext_lt ss)
  have rp: "r p ! 2 ! 3 = 1" using nth_r [OF i b] by simp
  have rs: "r s ! 2 ! 3 = 1" using sinit_r(3) [OF j b] by simp
  have ph: "phi s ! 2 ! 3 = pi / 2" unfolding s_def by (rule phi_4_4_360_2_3)
  have inp: "(2, 3) \<in> set (np_where (get_points_on_ring p 1 2))"
    using b length_r [OF i] length_r_row [OF i b(1)]
    by (simp add: set_np_where length_get_points_on_ring length_get_points_on_ring_row
        nth_get_points_on_ring rp)
  have sec: "\<not> get_angle_sector s 0 1 ! 2 ! 3"
    using sector_cell [OF j b, of 0 1] pi_ge_two by (simp add: ph)
  have ins: "(2, 3) \<notin> set (np_where (arr_mul (get_points_on_ring s 1 2) (get_angle_sector s 0 1)))"
    using mem_ring_sector [OF j b, of 1 2 0 1] sec by simp
  show ?thesis
    unfolding p_def [symmetric] s_def [symmetric] np ns using inp ins by simp
qed

text \<open>
  Claim C2 at the shape \<open>(4, 4)\<close> with \<open>d_bin = 1\<close>, \<open>d_angle\<close> of 90 degrees and the key
  \<open>(0, 2, 0, 90)\<close>. The pair \<open>(2, 3)\<close> is returned: it is on the ring, and in the sector
  whose bounds are \<open>0\<close> and \<open>90\<close> taken as radians. It is outside the sector whose bounds are
  0 and 90 degrees converted to radians.
\<close>

theorem getitem_degrees_as_radians:
  "(2, 3) \<in> set (fst (getitem (projr (SectionedFourierRingIterator_init [4, 4] 1 90)) (0, 2, 0, 90)))
   \<and> get_points_on_ring (projr (SectionedFourierRingIterator_init [4, 4] 1 90)) 0 2 ! 2 ! 3
   \<and> get_angle_sector (projr (SectionedFourierRingIterator_init [4, 4] 1 90)) 0 90 ! 2 ! 3
   \<and> \<not> get_angle_sector (projr (SectionedFourierRingIterator_init [4, 4] 1 90))
          (degrees_to_radians 0) (degrees_to_radians 90) ! 2 ! 3"
proof -
  define s where "s = projr (SectionedFourierRingIterator_init [4, 4] 1 90)"
  have j: "SectionedFourierRingIterator_init [4, 4] 1 90 = Inr s"
    unfolding s_def by (rule sinit_projr) simp_all
  have b: "(2::nat) < nat ([4, 4::int] ! 1)" "(3::nat) < nat ([4, 4::int] ! 0)" by simp_all
  have rs: "r s ! 2 ! 3 = 1" using sinit_r(3) [OF j b] by simp
  have ph: "phi s ! 2 ! 3 = 7 * pi / 4" unfolding s_def by (rule phi_4_4_90_2_3)
  have g: "fst (getitem s (0, 2, 0, 90))
             = np_where (arr_mul (get_points_on_ring s 0 2) (get_angle_sector s 0 90))"
    by (simp add: getitem_def Let_def)
  have ring: "get_points_on_ring s 0 2 ! 2 ! 3"
    using ring_cell [OF j b, of 0 2] by (simp add: rs)
  have raw: "get_angle_sector s 0 90 ! 2 ! 3"
    using sector_cell [OF j b, of 0 90] pi_less_4 pi_gt_zero by (simp add: ph)
  have conv: "\<not> get_angle_sector s (degrees_to_radians 0) (degrees_to_radians 90) ! 2 ! 3"
    using sector_cell [OF j b, of "degrees_to_radians 0" "degrees_to_radians 90"] pi_gt_zero
    by (simp add: ph degrees_to_radians_def)
  have mem: "(2, 3) \<in> set (fst (getitem s (0, 2, 0, 90)))"
    unfolding g using mem_ring_sector [OF j b, of 0 2 0 90] ring raw by simp
  show ?thesis
    unfolding s_def [symmetric] using mem ring raw conv by simp
qed

end
